theory Spec2Isabelle
  imports Complex_Main
begin

section \<open>ProtectedValue: a value behind a reader-writer lock, with scope-bound guards\<close>

text \<open>
  The header \<^verbatim>\<open>protected_value.hpp\<close> declares three class templates:
  \<^verbatim>\<open>ConstPtr<T>\<close> (the read guard), \<^verbatim>\<open>MutablePtr<T>\<close> (the write guard) and
  \<^verbatim>\<open>Protected<T>\<close> (the container). The guards hold a raw pointer to the payload and a
  reference to the lock of the container, so the model keeps an explicit store: objects of
  type \<^verbatim>\<open>T\<close> and objects of type \<^verbatim>\<open>Mutex\<close> live at addresses, pointers and
  references are addresses, and \<^verbatim>\<open>nullptr\<close> is \<open>None\<close>.
\<close>

subsection \<open>The store\<close>

type_synonym addr = nat

text \<open>
  \<^verbatim>\<open>using Mutex = std::shared_mutex;\<close>
  The state of a shared mutex: how many shared acquisitions are held and whether the
  exclusive acquisition is held.
\<close>

record Mutex =
  shared :: nat
  exclusive :: bool

text \<open>
  An operation either completes, or cannot complete in the present state because the lock
  is not available (the calling thread waits: \<open>Blocks\<close>), or has undefined behaviour
  (\<open>Undefined\<close>: a null or dangling pointer is dereferenced, a lock is released that is not
  held), or has no instantiation at all because its body does not type-check
  (\<open>IllFormed\<close>).
\<close>

datatype fault = Blocks | Undefined | IllFormed

text \<open>
  The store has the \<^verbatim>\<open>T\<close> objects and the \<^verbatim>\<open>Mutex\<close> objects. An object of class
  \<^verbatim>\<open>Protected<T>\<close> at address \<open>p\<close> has its member \<^verbatim>\<open>value_\<close> at \<open>objs h p\<close> and its
  member \<^verbatim>\<open>mutex_\<close> at \<open>mutexes h p\<close>; so \<^verbatim>\<open>&value_\<close> is \<open>Some p\<close> and the reference
  \<^verbatim>\<open>mutex_\<close> is \<open>p\<close>. Any other address of \<open>objs\<close> is an object of type \<^verbatim>\<open>T\<close> of
  the caller.
\<close>

record 'a heap =
  objs :: "addr \<rightharpoonup> 'a"
  mutexes :: "addr \<rightharpoonup> Mutex"

definition empty_heap :: "'a heap" where
  "empty_heap = \<lparr>objs = Map.empty, mutexes = Map.empty\<rparr>"

text \<open>Reading and writing through a pointer \<^verbatim>\<open>T*\<close>.\<close>

definition load :: "addr option \<Rightarrow> 'a heap \<Rightarrow> fault + 'a" where
  "load ptr h =
     (case ptr of
        None \<Rightarrow> Inl Undefined
      | Some a \<Rightarrow> (case objs h a of None \<Rightarrow> Inl Undefined | Some v \<Rightarrow> Inr v))"

definition store :: "addr option \<Rightarrow> ('a \<Rightarrow> 'a) \<Rightarrow> 'a heap \<Rightarrow> fault + 'a heap" where
  "store ptr f h =
     (case ptr of
        None \<Rightarrow> Inl Undefined
      | Some a \<Rightarrow>
          (case objs h a of
             None \<Rightarrow> Inl Undefined
           | Some v \<Rightarrow> Inr (h\<lparr>objs := (objs h)(a \<mapsto> f v)\<rparr>)))"

subsection \<open>The lock primitive\<close>

text \<open>
  Modelled from the spec: the member functions of \<^verbatim>\<open>std::shared_mutex\<close>, which the header
  includes from the standard library and does not implement. The spec describes the
  primitive as "allowing many concurrent shared (read) holders or one exclusive (write)
  holder, never both simultaneously", with acquisitions that block until the requested
  mode is available. Releasing a mode that is not held is undefined behaviour.
\<close>

definition lock :: "addr \<Rightarrow> 'a heap \<Rightarrow> fault + 'a heap" where
  "lock m h =
     (case mutexes h m of
        None \<Rightarrow> Inl Undefined
      | Some mu \<Rightarrow>
          if exclusive mu \<or> 0 < shared mu then Inl Blocks
          else Inr (h\<lparr>mutexes := (mutexes h)(m \<mapsto> mu\<lparr>exclusive := True\<rparr>)\<rparr>))"

definition unlock :: "addr \<Rightarrow> 'a heap \<Rightarrow> fault + 'a heap" where
  "unlock m h =
     (case mutexes h m of
        None \<Rightarrow> Inl Undefined
      | Some mu \<Rightarrow>
          if exclusive mu
          then Inr (h\<lparr>mutexes := (mutexes h)(m \<mapsto> mu\<lparr>exclusive := False\<rparr>)\<rparr>)
          else Inl Undefined)"

definition lock_shared :: "addr \<Rightarrow> 'a heap \<Rightarrow> fault + 'a heap" where
  "lock_shared m h =
     (case mutexes h m of
        None \<Rightarrow> Inl Undefined
      | Some mu \<Rightarrow>
          if exclusive mu then Inl Blocks
          else Inr (h\<lparr>mutexes := (mutexes h)(m \<mapsto> mu\<lparr>shared := Suc (shared mu)\<rparr>)\<rparr>))"

definition unlock_shared :: "addr \<Rightarrow> 'a heap \<Rightarrow> fault + 'a heap" where
  "unlock_shared m h =
     (case mutexes h m of
        None \<Rightarrow> Inl Undefined
      | Some mu \<Rightarrow>
          if 0 < shared mu
          then Inr (h\<lparr>mutexes := (mutexes h)(m \<mapsto> mu\<lparr>shared := shared mu - 1\<rparr>)\<rparr>)
          else Inl Undefined)"

text \<open>
  Assignment to a \<^verbatim>\<open>Mutex\<close>. The standard library's \<^verbatim>\<open>std::shared_mutex\<close> declares its
  copy assignment deleted and has no other assignment operator, so neither
  \<^verbatim>\<open>mutex_ = std::move(other.mutex_)\<close> (from a \<^verbatim>\<open>Mutex\<close>) nor
  \<^verbatim>\<open>mutex_ = &other.mutex_\<close> (from a \<^verbatim>\<open>Mutex*\<close>) has a viable operator: a member
  function with such a statement cannot be instantiated.
\<close>

definition Mutex_assign :: "addr \<Rightarrow> addr \<Rightarrow> 'a heap \<Rightarrow> fault + 'a heap" where
  "Mutex_assign dst src h = Inl IllFormed"

subsection \<open>ConstPtr: the read guard\<close>

text \<open>
  \<^verbatim>\<open>const T* obj_ = nullptr;  Mutex& mutex_;\<close>
  The fields are named \<open>c_obj\<close> and \<open>c_mutex\<close> here.
\<close>

record ConstPtr =
  c_obj :: "addr option"
  c_mutex :: addr

text \<open>\<^verbatim>\<open>ConstPtr(const T* obj, Mutex& mutex) : obj_(obj), mutex_(mutex) { mutex_.lock_shared(); }\<close>\<close>

definition ConstPtr_ctor :: "addr option \<Rightarrow> addr \<Rightarrow> 'a heap \<Rightarrow> fault + (ConstPtr \<times> 'a heap)" where
  "ConstPtr_ctor obj mutex h =
     (case lock_shared mutex h of
        Inl e \<Rightarrow> Inl e
      | Inr h' \<Rightarrow> Inr (\<lparr>c_obj = obj, c_mutex = mutex\<rparr>, h'))"

text \<open>
  \<^verbatim>\<open>ConstPtr(ConstPtr&& other) : obj_(other.obj_), mutex_(other.mutex_) {}\<close>
  The result is the new guard and the state of \<open>other\<close> afterwards.
\<close>

definition ConstPtr_move_ctor :: "ConstPtr \<Rightarrow> ConstPtr \<times> ConstPtr" where
  "ConstPtr_move_ctor other = (\<lparr>c_obj = c_obj other, c_mutex = c_mutex other\<rparr>, other)"

text \<open>
  \<^verbatim>\<open>operator=(ConstPtr&& other) { mutex_ = &other.mutex_; std::swap(obj_, other.obj_); return *this; }\<close>
  The result is the state of \<open>this\<close>, of \<open>other\<close> and of the store.
\<close>

definition ConstPtr_move_assign ::
  "ConstPtr \<Rightarrow> ConstPtr \<Rightarrow> 'a heap \<Rightarrow> fault + (ConstPtr \<times> ConstPtr \<times> 'a heap)" where
  "ConstPtr_move_assign this other h =
     (case Mutex_assign (c_mutex this) (c_mutex other) h of
        Inl e \<Rightarrow> Inl e
      | Inr h' \<Rightarrow> Inr (this\<lparr>c_obj := c_obj other\<rparr>, other\<lparr>c_obj := c_obj this\<rparr>, h'))"

text \<open>\<^verbatim>\<open>~ConstPtr() { mutex_.unlock_shared(); }\<close>\<close>

definition ConstPtr_dtor :: "ConstPtr \<Rightarrow> 'a heap \<Rightarrow> fault + 'a heap" where
  "ConstPtr_dtor g h = unlock_shared (c_mutex g) h"

text \<open>\<^verbatim>\<open>operator bool() const { return obj_ != nullptr; }\<close>\<close>

definition ConstPtr_bool :: "ConstPtr \<Rightarrow> bool" where
  "ConstPtr_bool g = (c_obj g \<noteq> None)"


text \<open>\<^verbatim>\<open>const T& operator*() const { return *obj_; }\<close>, read by the caller.\<close>

definition ConstPtr_deref :: "ConstPtr \<Rightarrow> 'a heap \<Rightarrow> fault + 'a" where
  "ConstPtr_deref g h = load (c_obj g) h"

text \<open>\<^verbatim>\<open>const T* operator->() const { return obj_; }\<close>\<close>

definition ConstPtr_arrow :: "ConstPtr \<Rightarrow> addr option" where
  "ConstPtr_arrow g = c_obj g"

subsection \<open>MutablePtr: the write guard\<close>

text \<open>
  \<^verbatim>\<open>T* obj_ = nullptr;  Mutex& mutex_;\<close>
  The fields are named \<open>m_obj\<close> and \<open>m_mutex\<close> here.
\<close>

record MutablePtr =
  m_obj :: "addr option"
  m_mutex :: addr

text \<open>\<^verbatim>\<open>MutablePtr(T* obj, Mutex& mutex) : obj_(obj), mutex_(mutex) { mutex_.lock(); }\<close>\<close>

definition MutablePtr_ctor ::
  "addr option \<Rightarrow> addr \<Rightarrow> 'a heap \<Rightarrow> fault + (MutablePtr \<times> 'a heap)" where
  "MutablePtr_ctor obj mutex h =
     (case lock mutex h of
        Inl e \<Rightarrow> Inl e
      | Inr h' \<Rightarrow> Inr (\<lparr>m_obj = obj, m_mutex = mutex\<rparr>, h'))"

text \<open>
  \<^verbatim>\<open>MutablePtr(MutablePtr&& other) : mutex_(other.mutex_) { std::swap(obj_, other.obj_); }\<close>
  The member \<^verbatim>\<open>obj_\<close> has no initialiser in the list, so it starts as \<^verbatim>\<open>nullptr\<close> (its
  default member initialiser) and the swap leaves \<^verbatim>\<open>nullptr\<close> in \<open>other\<close>.
\<close>

definition MutablePtr_move_ctor :: "MutablePtr \<Rightarrow> MutablePtr \<times> MutablePtr" where
  "MutablePtr_move_ctor other =
     (\<lparr>m_obj = m_obj other, m_mutex = m_mutex other\<rparr>, other\<lparr>m_obj := None\<rparr>)"

text \<open>
  \<^verbatim>\<open>operator=(MutablePtr&& other) { mutex_ = &other.mutex_; std::swap(obj_, other.obj_); return *this; }\<close>
\<close>

definition MutablePtr_move_assign ::
  "MutablePtr \<Rightarrow> MutablePtr \<Rightarrow> 'a heap \<Rightarrow> fault + (MutablePtr \<times> MutablePtr \<times> 'a heap)" where
  "MutablePtr_move_assign this other h =
     (case Mutex_assign (m_mutex this) (m_mutex other) h of
        Inl e \<Rightarrow> Inl e
      | Inr h' \<Rightarrow> Inr (this\<lparr>m_obj := m_obj other\<rparr>, other\<lparr>m_obj := m_obj this\<rparr>, h'))"

text \<open>\<^verbatim>\<open>~MutablePtr() { mutex_.unlock(); }\<close>\<close>

definition MutablePtr_dtor :: "MutablePtr \<Rightarrow> 'a heap \<Rightarrow> fault + 'a heap" where
  "MutablePtr_dtor g h = unlock (m_mutex g) h"

text \<open>\<^verbatim>\<open>operator bool() const { return obj_ != nullptr; }\<close>\<close>

definition MutablePtr_bool :: "MutablePtr \<Rightarrow> bool" where
  "MutablePtr_bool g = (m_obj g \<noteq> None)"


text \<open>\<^verbatim>\<open>T& operator*() { return *obj_; }\<close>, read by the caller.\<close>

definition MutablePtr_deref :: "MutablePtr \<Rightarrow> 'a heap \<Rightarrow> fault + 'a" where
  "MutablePtr_deref g h = load (m_obj g) h"

text \<open>
  \<^verbatim>\<open>operator->()\<close>. The class declares \<^verbatim>\<open>T& operator->();\<close> and the definition
  outside the class reads \<^verbatim>\<open>inline T* MutablePtr<T>::operator->() { return obj_; }\<close>:
  the definition names another return type than the declaration, so it defines no member
  of the class and a program that uses the operator cannot be built.
\<close>

datatype return_type = Reference | Pointer

definition MutablePtr_arrow_declared :: return_type where
  "MutablePtr_arrow_declared = Reference"

definition MutablePtr_arrow_defined :: return_type where
  "MutablePtr_arrow_defined = Pointer"

definition MutablePtr_arrow :: "MutablePtr \<Rightarrow> fault + addr option" where
  "MutablePtr_arrow g =
     (if MutablePtr_arrow_declared = MutablePtr_arrow_defined then Inr (m_obj g)
      else Inl IllFormed)"

text \<open>
  A write through the reference that \<^verbatim>\<open>operator*\<close> returns, as in \<^verbatim>\<open>*val = v\<close> or
  \<^verbatim>\<open>(*val).x = 68\<close>: the payload the guard points to is replaced by \<open>f\<close> of it.
\<close>

definition MutablePtr_write :: "MutablePtr \<Rightarrow> ('a \<Rightarrow> 'a) \<Rightarrow> 'a heap \<Rightarrow> fault + 'a heap" where
  "MutablePtr_write g f h = store (m_obj g) f h"

subsection \<open>Protected: the container\<close>

text \<open>
  \<^verbatim>\<open>Protected(const T& value) : value_(value) {}\<close>
  The mutex member is default-constructed: nothing holds it.
\<close>

definition Protected_ctor :: "addr \<Rightarrow> 'a \<Rightarrow> 'a heap \<Rightarrow> 'a heap" where
  "Protected_ctor p v h =
     h\<lparr>objs := (objs h)(p \<mapsto> v),
       mutexes := (mutexes h)(p \<mapsto> \<lparr>shared = 0, exclusive = False\<rparr>)\<rparr>"

text \<open>
  \<^verbatim>\<open>Protected() = default;\<close> with \<^verbatim>\<open>T value_ = T();\<close>
  The value-initialised \<^verbatim>\<open>T()\<close> is the parameter \<open>T_init\<close>.
\<close>

definition Protected_default_ctor :: "'a \<Rightarrow> addr \<Rightarrow> 'a heap \<Rightarrow> 'a heap" where
  "Protected_default_ctor T_init p h = Protected_ctor p T_init h"

text \<open>
  \<^verbatim>\<open>Protected(T&& value) : value_(std::move(value)) {}\<close>
  The argument is the caller's object at address \<open>src\<close>. What a move leaves in its source
  depends on \<^verbatim>\<open>T\<close>: the parameter \<open>moved_from\<close> gives the state of a \<^verbatim>\<open>T\<close> after it
  has been moved from.
\<close>

definition Protected_ctor_rvalue ::
  "('a \<Rightarrow> 'a) \<Rightarrow> addr \<Rightarrow> addr \<Rightarrow> 'a heap \<Rightarrow> fault + 'a heap" where
  "Protected_ctor_rvalue moved_from p src h =
     (case objs h src of
        None \<Rightarrow> Inl Undefined
      | Some v \<Rightarrow>
          Inr (h\<lparr>objs := (objs h)(src \<mapsto> moved_from v, p \<mapsto> v),
                 mutexes := (mutexes h)(p \<mapsto> \<lparr>shared = 0, exclusive = False\<rparr>)\<rparr>))"

text \<open>
  \<^verbatim>\<open>void set(const T& value) { const std::unique_lock lk(mutex_); value_ = value; }\<close>
  The \<^verbatim>\<open>unique_lock\<close> calls \<^verbatim>\<open>lock()\<close> when it is constructed and \<^verbatim>\<open>unlock()\<close>
  when the scope ends.
\<close>

definition Protected_set :: "addr \<Rightarrow> 'a \<Rightarrow> 'a heap \<Rightarrow> fault + 'a heap" where
  "Protected_set p v h =
     (case lock p h of
        Inl e \<Rightarrow> Inl e
      | Inr h1 \<Rightarrow>
          (case store (Some p) (\<lambda>_. v) h1 of
             Inl e \<Rightarrow> Inl e
           | Inr h2 \<Rightarrow> unlock p h2))"

text \<open>
  \<^verbatim>\<open>void set(T&& value) { const std::unique_lock lk(mutex_); value_ = value; }\<close>
  The argument is the caller's object at address \<open>src\<close>. Inside the body \<^verbatim>\<open>value\<close> is a
  named reference, hence an lvalue: the assignment is the copy assignment of \<^verbatim>\<open>T\<close>, which
  reads \<open>src\<close> and does not write it.
\<close>

definition Protected_set_rvalue :: "addr \<Rightarrow> addr \<Rightarrow> 'a heap \<Rightarrow> fault + 'a heap" where
  "Protected_set_rvalue p src h =
     (case lock p h of
        Inl e \<Rightarrow> Inl e
      | Inr h1 \<Rightarrow>
          (case load (Some src) h1 of
             Inl e \<Rightarrow> Inl e
           | Inr v \<Rightarrow>
               (case store (Some p) (\<lambda>_. v) h1 of
                  Inl e \<Rightarrow> Inl e
                | Inr h2 \<Rightarrow> unlock p h2)))"

text \<open>
  \<^verbatim>\<open>T get() const { const std::shared_lock lk(mutex_); return value_; }\<close>
  The \<^verbatim>\<open>shared_lock\<close> calls \<^verbatim>\<open>lock_shared()\<close> when it is constructed and
  \<^verbatim>\<open>unlock_shared()\<close> when the scope ends, after the copy has been made.
\<close>

definition Protected_get :: "addr \<Rightarrow> 'a heap \<Rightarrow> fault + ('a \<times> 'a heap)" where
  "Protected_get p h =
     (case lock_shared p h of
        Inl e \<Rightarrow> Inl e
      | Inr h1 \<Rightarrow>
          (case load (Some p) h1 of
             Inl e \<Rightarrow> Inl e
           | Inr v \<Rightarrow>
               (case unlock_shared p h1 of
                  Inl e \<Rightarrow> Inl e
                | Inr h2 \<Rightarrow> Inr (v, h2))))"

text \<open>
  \<^verbatim>\<open>T c = p.get();\<close> The caller keeps the returned copy in an object of its own at address
  \<open>c\<close>.
\<close>

definition Protected_get_into :: "addr \<Rightarrow> addr \<Rightarrow> 'a heap \<Rightarrow> fault + 'a heap" where
  "Protected_get_into c p h =
     (case Protected_get p h of
        Inl e \<Rightarrow> Inl e
      | Inr (v, h') \<Rightarrow> Inr (h'\<lparr>objs := (objs h')(c \<mapsto> v)\<rparr>))"

text \<open>
  \<^verbatim>\<open>operator=(Protected&& other) { mutex_ = std::move(other.mutex_); value_ = std::move(other.value_); return *this; }\<close>
\<close>

definition Protected_move_assign ::
  "('a \<Rightarrow> 'a) \<Rightarrow> addr \<Rightarrow> addr \<Rightarrow> 'a heap \<Rightarrow> fault + 'a heap" where
  "Protected_move_assign moved_from this other h =
     (case Mutex_assign this other h of
        Inl e \<Rightarrow> Inl e
      | Inr h1 \<Rightarrow>
          (case objs h1 other of
             None \<Rightarrow> Inl Undefined
           | Some v \<Rightarrow> Inr (h1\<lparr>objs := (objs h1)(other \<mapsto> moved_from v, this \<mapsto> v)\<rparr>)))"

text \<open>\<^verbatim>\<open>ConstPtr<T> getConstPtr() const { return ConstPtr<T>(&value_, mutex_); }\<close>\<close>

definition Protected_getConstPtr :: "addr \<Rightarrow> 'a heap \<Rightarrow> fault + (ConstPtr \<times> 'a heap)" where
  "Protected_getConstPtr p h = ConstPtr_ctor (Some p) p h"

text \<open>\<^verbatim>\<open>MutablePtr<T> getMutablePtr() { return MutablePtr<T>(&value_, mutex_); }\<close>\<close>

definition Protected_getMutablePtr :: "addr \<Rightarrow> 'a heap \<Rightarrow> fault + (MutablePtr \<times> 'a heap)" where
  "Protected_getMutablePtr p h = MutablePtr_ctor (Some p) p h"

subsection \<open>The demonstration program\<close>

text \<open>
  \<^verbatim>\<open>struct Point { double x = 0; double y = 0; };\<close>
  The program only stores and copies the fields, so a \<^verbatim>\<open>double\<close> is a real number
  here.
\<close>

record Point =
  x :: real
  y :: real

text \<open>
  The body of \<^verbatim>\<open>main\<close> in \<^verbatim>\<open>example.cpp\<close>, with the container \<^verbatim>\<open>result\<close> at the
  address \<open>result\<close>. The model returns the values written to \<^verbatim>\<open>std::cout\<close>, in order,
  and the store as it is before \<^verbatim>\<open>return 0\<close>. Each \<^verbatim>\<open>if(auto val = ...)\<close> tests the
  guard, runs its body when the guard is true, and destroys the guard when the statement
  ends. The body of the second one is \<^verbatim>\<open>val->x = 68;\<close>, an assignment through the
  pointer that \<^verbatim>\<open>operator->\<close> of the write guard returns.
\<close>

definition example_main :: "addr \<Rightarrow> Point heap \<Rightarrow> fault + (Point list \<times> Point heap)" where
  "example_main result h =
     (let h0 = Protected_ctor result \<lparr>x = 42, y = 69\<rparr> h in
      case Protected_get result h0 of
        Inl e \<Rightarrow> Inl e
      | Inr (v1, h1) \<Rightarrow>
     (case Protected_getConstPtr result h1 of
        Inl e \<Rightarrow> Inl e
      | Inr (val, h2) \<Rightarrow>
     (case (if ConstPtr_bool val
            then (case ConstPtr_deref val h2 of Inl e \<Rightarrow> Inl e | Inr v2 \<Rightarrow> Inr [v2])
            else Inr []) of
        Inl e \<Rightarrow> Inl e
      | Inr out2 \<Rightarrow>
     (case ConstPtr_dtor val h2 of
        Inl e \<Rightarrow> Inl e
      | Inr h3 \<Rightarrow>
     (case Protected_getMutablePtr result h3 of
        Inl e \<Rightarrow> Inl e
      | Inr (val', h4) \<Rightarrow>
     (case (if MutablePtr_bool val'
            then (case MutablePtr_arrow val' of
                    Inl e \<Rightarrow> Inl e
                  | Inr ptr \<Rightarrow>
                      (case store ptr (\<lambda>pt. pt\<lparr>x := 68\<rparr>) h4 of
                         Inl e \<Rightarrow> Inl e
                       | Inr h5 \<Rightarrow>
                           (case MutablePtr_deref val' h5 of
                              Inl e \<Rightarrow> Inl e
                            | Inr v3 \<Rightarrow> Inr ([v3], h5))))
            else Inr ([], h4)) of
        Inl e \<Rightarrow> Inl e
      | Inr (out3, h6) \<Rightarrow>
     (case MutablePtr_dtor val' h6 of
        Inl e \<Rightarrow> Inl e
      | Inr h7 \<Rightarrow> Inr (v1 # out2 @ out3, h7))))))))"

subsection \<open>Scopes, mutations and the uses of a guard\<close>

text \<open>
  A guard is an automatic object: the block that declares it,
  \<^verbatim>\<open>{ auto val = p.getConstPtr(); body }\<close>, destroys it when control leaves the block,
  whether the body runs to its end, returns early or throws. The body is given the guard
  and the store and says how it left.
\<close>

datatype exit_path = FallsThrough | Returns | Throws

definition ConstPtr_scope ::
  "addr \<Rightarrow> (ConstPtr \<Rightarrow> 'a heap \<Rightarrow> fault + (exit_path \<times> 'a heap)) \<Rightarrow> 'a heap \<Rightarrow>
   fault + (exit_path \<times> 'a heap)" where
  "ConstPtr_scope p body h =
     (case Protected_getConstPtr p h of
        Inl e \<Rightarrow> Inl e
      | Inr (val, h1) \<Rightarrow>
          (case body val h1 of
             Inl e \<Rightarrow> Inl e
           | Inr (ex, h2) \<Rightarrow>
               (case ConstPtr_dtor val h2 of
                  Inl e \<Rightarrow> Inl e
                | Inr h3 \<Rightarrow> Inr (ex, h3))))"

definition MutablePtr_scope ::
  "addr \<Rightarrow> (MutablePtr \<Rightarrow> 'a heap \<Rightarrow> fault + (exit_path \<times> 'a heap)) \<Rightarrow> 'a heap \<Rightarrow>
   fault + (exit_path \<times> 'a heap)" where
  "MutablePtr_scope p body h =
     (case Protected_getMutablePtr p h of
        Inl e \<Rightarrow> Inl e
      | Inr (val, h1) \<Rightarrow>
          (case body val h1 of
             Inl e \<Rightarrow> Inl e
           | Inr (ex, h2) \<Rightarrow>
               (case MutablePtr_dtor val h2 of
                  Inl e \<Rightarrow> Inl e
                | Inr h3 \<Rightarrow> Inr (ex, h3))))"

text \<open>
  The ways a caller can change the payload of the container at \<open>p\<close>: the two overloads of
  \<^verbatim>\<open>set\<close>, and a write through a write guard that lives for that write.
\<close>

datatype 'a mutation = BySet 'a | BySetRvalue addr | ByWriteGuard "'a \<Rightarrow> 'a"

fun mutate :: "addr \<Rightarrow> 'a mutation \<Rightarrow> 'a heap \<Rightarrow> fault + 'a heap" where
  "mutate p (BySet v) h = Protected_set p v h"
| "mutate p (BySetRvalue src) h = Protected_set_rvalue p src h"
| "mutate p (ByWriteGuard f) h =
     (case Protected_getMutablePtr p h of
        Inl e \<Rightarrow> Inl e
      | Inr (val, h1) \<Rightarrow>
          (case MutablePtr_write val f h1 of
             Inl e \<Rightarrow> Inl e
           | Inr h2 \<Rightarrow> MutablePtr_dtor val h2))"

fun mutate_all :: "addr \<Rightarrow> 'a mutation list \<Rightarrow> 'a heap \<Rightarrow> fault + 'a heap" where
  "mutate_all p [] h = Inr h"
| "mutate_all p (m # ms) h =
     (case mutate p m h of Inl e \<Rightarrow> Inl e | Inr h' \<Rightarrow> mutate_all p ms h')"

text \<open>
  What a caller can do with a guard object between its construction and its destruction,
  and the state of the guard object afterwards. The conversion to \<^verbatim>\<open>bool\<close>,
  \<^verbatim>\<open>mutex()\<close>, \<^verbatim>\<open>operator*\<close> and \<^verbatim>\<open>operator->\<close> do not assign to a member; being the
  argument of the move constructor leaves the guard as that constructor leaves
  \<^verbatim>\<open>other\<close>.
\<close>

datatype guard_use = TestBool | GetMutex | Deref | Arrow | MoveFrom





subsection \<open>Interleavings of guard operations\<close>

text \<open>
  Several threads work on the container at \<open>p\<close>. The state of the system is the store
  and the guard objects that are alive, each under the name its owner gave it. A guard
  object is alive from its construction to its destruction, moved from or not.
\<close>

record 'a sys =
  mem :: "'a heap"
  readers :: "nat \<rightharpoonup> ConstPtr"
  writers :: "nat \<rightharpoonup> MutablePtr"

text \<open>
  The operations on guards, each done by some thread:
  \<^verbatim>\<open>auto r = p.getConstPtr();\<close>, \<^verbatim>\<open>ConstPtr<T> r'(std::move(r));\<close> and the end of the
  lifetime of \<open>r\<close>; the same three for write guards. An interleaving is a list of them in
  the order in which they complete. An operation that would block cannot be the next to
  complete: the step is \<open>Inl Blocks\<close>. An operation on a name that is not alive, or a
  declaration of a name that is, is not a program.
\<close>

datatype guard_op =
    AcquireRead nat
  | MoveRead nat nat
  | ReleaseRead nat
  | AcquireWrite nat
  | MoveWrite nat nat
  | ReleaseWrite nat

fun guard_step :: "addr \<Rightarrow> guard_op \<Rightarrow> 'a sys \<Rightarrow> fault + 'a sys" where
  "guard_step p (AcquireRead r) s =
     (if readers s r \<noteq> None then Inl IllFormed
      else (case Protected_getConstPtr p (mem s) of
              Inl e \<Rightarrow> Inl e
            | Inr (g, h') \<Rightarrow> Inr (s\<lparr>mem := h', readers := (readers s)(r \<mapsto> g)\<rparr>)))"
| "guard_step p (MoveRead r' r) s =
     (case readers s r of
        None \<Rightarrow> Inl IllFormed
      | Some g \<Rightarrow>
          if readers s r' \<noteq> None then Inl IllFormed
          else (case ConstPtr_move_ctor g of
                  (this, other) \<Rightarrow> Inr (s\<lparr>readers := (readers s)(r \<mapsto> other, r' \<mapsto> this)\<rparr>)))"
| "guard_step p (ReleaseRead r) s =
     (case readers s r of
        None \<Rightarrow> Inl IllFormed
      | Some g \<Rightarrow>
          (case ConstPtr_dtor g (mem s) of
             Inl e \<Rightarrow> Inl e
           | Inr h' \<Rightarrow> Inr (s\<lparr>mem := h', readers := (readers s)(r := None)\<rparr>)))"
| "guard_step p (AcquireWrite w) s =
     (if writers s w \<noteq> None then Inl IllFormed
      else (case Protected_getMutablePtr p (mem s) of
              Inl e \<Rightarrow> Inl e
            | Inr (g, h') \<Rightarrow> Inr (s\<lparr>mem := h', writers := (writers s)(w \<mapsto> g)\<rparr>)))"
| "guard_step p (MoveWrite w' w) s =
     (case writers s w of
        None \<Rightarrow> Inl IllFormed
      | Some g \<Rightarrow>
          if writers s w' \<noteq> None then Inl IllFormed
          else (case MutablePtr_move_ctor g of
                  (this, other) \<Rightarrow> Inr (s\<lparr>writers := (writers s)(w \<mapsto> other, w' \<mapsto> this)\<rparr>)))"
| "guard_step p (ReleaseWrite w) s =
     (case writers s w of
        None \<Rightarrow> Inl IllFormed
      | Some g \<Rightarrow>
          (case MutablePtr_dtor g (mem s) of
             Inl e \<Rightarrow> Inl e
           | Inr h' \<Rightarrow> Inr (s\<lparr>mem := h', writers := (writers s)(w := None)\<rparr>)))"

fun guard_run :: "addr \<Rightarrow> guard_op list \<Rightarrow> 'a sys \<Rightarrow> fault + 'a sys" where
  "guard_run p [] s = Inr s"
| "guard_run p (a # as) s =
     (case guard_step p a s of Inl e \<Rightarrow> Inl e | Inr s' \<Rightarrow> guard_run p as s')"

text \<open>The container at \<open>p\<close> has just been constructed with payload \<open>v\<close>; no guard is alive.\<close>

definition start :: "addr \<Rightarrow> 'a \<Rightarrow> 'a sys" where
  "start p v = \<lparr>mem = Protected_ctor p v empty_heap, readers = Map.empty, writers = Map.empty\<rparr>"

text \<open>The move constructions among the operations.\<close>

fun is_move :: "guard_op \<Rightarrow> bool" where
  "is_move (MoveRead r' r) = True"
| "is_move (MoveWrite w' w) = True"
| "is_move a = False"

text \<open>
  The states in which the lock agrees with the guards alive: every guard is as
  \<^verbatim>\<open>getConstPtr\<close> or \<^verbatim>\<open>getMutablePtr\<close> made it, the count of shared acquisitions is
  the number of read guards, and the exclusive acquisition is held exactly when there is a
  write guard, which is then the only guard.
\<close>

definition consistent :: "addr \<Rightarrow> 'a sys \<Rightarrow> bool" where
  "consistent p s =
     (finite (dom (readers s)) \<and> finite (dom (writers s)) \<and>
      ran (readers s) \<subseteq> {\<lparr>c_obj = Some p, c_mutex = p\<rparr>} \<and>
      ran (writers s) \<subseteq> {\<lparr>m_obj = Some p, m_mutex = p\<rparr>} \<and>
      (\<exists>mu. mutexes (mem s) p = Some mu \<and>
            shared mu = card (dom (readers s)) \<and>
            (if exclusive mu then card (dom (writers s)) = 1 \<and> shared mu = 0
             else dom (writers s) = {})))"

section \<open>Properties\<close>

subsection \<open>Basic facts about the lock and the store\<close>

lemma Mutex_release_exclusive:
  "\<not> exclusive mu \<Longrightarrow> mu\<lparr>exclusive := False\<rparr> = mu"
  by (cases mu) simp

lemma Mutex_release_shared:
  "mu\<lparr>shared := Suc (shared mu)\<rparr>\<lparr>shared := shared mu\<rparr> = mu"
  by (cases mu) simp

lemma heap_restore:
  "mutexes h m = Some mu \<Longrightarrow> h\<lparr>mutexes := (mutexes h)(m \<mapsto> mu)\<rparr> = h"
  by (cases h) (simp add: fun_upd_idem)

lemma lock_free:
  "mutexes h m = Some mu \<Longrightarrow> shared mu = 0 \<Longrightarrow> \<not> exclusive mu \<Longrightarrow>
   lock m h = Inr (h\<lparr>mutexes := (mutexes h)(m \<mapsto> mu\<lparr>exclusive := True\<rparr>)\<rparr>)"
  by (simp add: lock_def)

lemma lock_shared_free:
  "mutexes h m = Some mu \<Longrightarrow> \<not> exclusive mu \<Longrightarrow>
   lock_shared m h = Inr (h\<lparr>mutexes := (mutexes h)(m \<mapsto> mu\<lparr>shared := Suc (shared mu)\<rparr>)\<rparr>)"
  by (simp add: lock_shared_def)

lemma Protected_get_free:
  assumes "mutexes h p = Some mu" and "\<not> exclusive mu" and "objs h p = Some v"
  shows "Protected_get p h = Inr (v, h)"
  using assms
  by (simp add: Protected_get_def lock_shared_def unlock_shared_def load_def
      Mutex_release_shared heap_restore)



subsection \<open>The sequential scenario\<close>

text \<open>
  The scenario with the write made through \<^verbatim>\<open>operator*\<close>: the container is constructed
  with \<open>{x:42, y:69}\<close>, \<^verbatim>\<open>get()\<close> returns it, a read guard reads it, a write guard sets
  \<^verbatim>\<open>x\<close> to 68 and is released, and \<^verbatim>\<open>get()\<close> returns \<open>{x:68, y:69}\<close>.
\<close>

lemma scenario_through_deref:
  "\<exists>h0 r h1 h2 w h3 h4 h5.
     h0 = Protected_ctor 0 \<lparr>x = 42, y = 69\<rparr> empty_heap \<and>
     Protected_get 0 h0 = Inr (\<lparr>x = 42, y = 69\<rparr>, h0) \<and>
     Protected_getConstPtr 0 h0 = Inr (r, h1) \<and> ConstPtr_bool r \<and>
     ConstPtr_deref r h1 = Inr \<lparr>x = 42, y = 69\<rparr> \<and>
     ConstPtr_dtor r h1 = Inr h2 \<and>
     Protected_getMutablePtr 0 h2 = Inr (w, h3) \<and> MutablePtr_bool w \<and>
     MutablePtr_write w (\<lambda>pt. pt\<lparr>x := 68\<rparr>) h3 = Inr h4 \<and>
     MutablePtr_dtor w h4 = Inr h5 \<and>
     Protected_get 0 h5 = Inr (\<lparr>x = 68, y = 69\<rparr>, h5)"
  by (simp add: empty_heap_def Protected_ctor_def Protected_get_def
      Protected_getConstPtr_def Protected_getMutablePtr_def ConstPtr_ctor_def
      ConstPtr_dtor_def ConstPtr_bool_def ConstPtr_deref_def MutablePtr_ctor_def
      MutablePtr_dtor_def MutablePtr_bool_def MutablePtr_write_def
      lock_def unlock_def lock_shared_def unlock_shared_def load_def store_def)

text \<open>
  C2. The program of \<^verbatim>\<open>example.cpp\<close> constructs the container with \<open>{x:42, y:69}\<close>,
  prints what \<^verbatim>\<open>get()\<close> returns and what it reads through a read guard, and then sets
  \<^verbatim>\<open>x\<close> to 68 with \<^verbatim>\<open>val->x = 68\<close> through a write guard. That statement needs
  \<^verbatim>\<open>operator->\<close> of the write guard, whose definition does not match its declaration:
  the program cannot be built, so it has no run in which \<^verbatim>\<open>get()\<close> returns
  \<open>{x:68, y:69}\<close>.
\<close>

theorem C2_example_write_ill_formed:
  "example_main 0 empty_heap = Inl IllFormed"
  by (simp add: example_main_def empty_heap_def Protected_ctor_def Protected_get_def
      Protected_getConstPtr_def Protected_getMutablePtr_def ConstPtr_ctor_def
      ConstPtr_dtor_def ConstPtr_bool_def ConstPtr_deref_def MutablePtr_ctor_def
      MutablePtr_bool_def MutablePtr_arrow_def MutablePtr_arrow_declared_def
      MutablePtr_arrow_defined_def lock_def lock_shared_def unlock_shared_def load_def)

subsection \<open>Copy-based access\<close>



text \<open>
  C9. A default-constructed container holds the value-initialised payload: \<^verbatim>\<open>get()\<close>
  on it returns \<^verbatim>\<open>T()\<close>, whatever the type and whatever the store held before, and
  leaves the store as the constructor made it.
\<close>

theorem C9_default_constructed_get:
  "Protected_get p (Protected_default_ctor T_init p h) =
     Inr (T_init, Protected_default_ctor T_init p h)"
  by (rule Protected_get_free [where mu = "\<lparr>shared = 0, exclusive = False\<rparr>"])
    (simp_all add: Protected_default_ctor_def Protected_ctor_def)

lemma Protected_ctor_rvalue_moves:
  assumes "objs h src = Some v" and "src \<noteq> p"
  shows "\<exists>h'. Protected_ctor_rvalue moved_from p src h = Inr h' \<and>
              objs h' src = Some (moved_from v) \<and> objs h' p = Some v"
  using assms by (simp add: Protected_ctor_rvalue_def)

text \<open>
  C10. Whenever \<^verbatim>\<open>set(T&&)\<close> completes, the caller's argument object holds what it held
  before the call (it is copied from, not moved from), and the payload is that value.
\<close>

theorem C10_set_rvalue_copies:
  assumes "Protected_set_rvalue p src h = Inr h'"
  shows "objs h' src = objs h src \<and> objs h' p = objs h src"
  using assms
  by (auto simp: Protected_set_rvalue_def lock_def unlock_def load_def store_def
      split: option.splits if_splits sum.splits)

theorem C10_set_rvalue_copies_witness:
  "\<exists>h'. Protected_set_rvalue 0 7 (Protected_ctor 0 (1::int) (Protected_ctor 7 9 empty_heap)) = Inr h' \<and>
        objs h' 7 = Some 9 \<and> objs h' 0 = Some 9"
proof -
  let ?h = "Protected_ctor 0 (1::int) (Protected_ctor 7 9 empty_heap)"
  have "\<exists>h'. Protected_set_rvalue 0 7 ?h = Inr h'"
    by (simp add: Protected_set_rvalue_def Protected_ctor_def empty_heap_def lock_def
        unlock_def load_def store_def)
  then obtain h' where run: "Protected_set_rvalue 0 7 ?h = Inr h'" ..
  have "objs ?h 7 = Some 9"
    by (simp add: Protected_ctor_def empty_heap_def)
  with C10_set_rvalue_copies [OF run] run show ?thesis by simp
qed

subsection \<open>Release on destruction\<close>

text \<open>
  C4. The destructor of a read guard performs one shared release and nothing else: the
  count of shared acquisitions of the guard's mutex drops by exactly one, the exclusive
  flag and the rest of the store are as before. The destructor of a write guard performs
  one exclusive release and nothing else. Neither looks at the pointer, so this holds for
  every guard that holds its acquisition. A block that declares a guard releases in the
  same way however the body leaves it: by falling through, by a return or by an exception.
\<close>

theorem C4_destructor_releases_own_mode:
  "(mutexes h (c_mutex g) = Some mu \<and> 0 < shared mu \<longrightarrow>
      ConstPtr_dtor g h =
        Inr (h\<lparr>mutexes := (mutexes h)(c_mutex g \<mapsto> mu\<lparr>shared := shared mu - 1\<rparr>)\<rparr>)) \<and>
   (mutexes h' (m_mutex w) = Some mu' \<and> exclusive mu' \<longrightarrow>
      MutablePtr_dtor w h' =
        Inr (h'\<lparr>mutexes := (mutexes h')(m_mutex w \<mapsto> mu'\<lparr>exclusive := False\<rparr>)\<rparr>)) \<and>
   (Protected_getConstPtr p k = Inr (val, k1) \<and> body val k1 = Inr (ex, k2) \<and>
    mutexes k2 (c_mutex val) = Some nu \<and> 0 < shared nu \<longrightarrow>
      ConstPtr_scope p body k =
        Inr (ex, k2\<lparr>mutexes := (mutexes k2)(c_mutex val \<mapsto> nu\<lparr>shared := shared nu - 1\<rparr>)\<rparr>)) \<and>
   (Protected_getMutablePtr p' k' = Inr (val', k1') \<and> body' val' k1' = Inr (ex', k2') \<and>
    mutexes k2' (m_mutex val') = Some nu' \<and> exclusive nu' \<longrightarrow>
      MutablePtr_scope p' body' k' =
        Inr (ex', k2'\<lparr>mutexes := (mutexes k2')(m_mutex val' \<mapsto> nu'\<lparr>exclusive := False\<rparr>)\<rparr>))"
  by (simp add: ConstPtr_dtor_def MutablePtr_dtor_def unlock_shared_def unlock_def
      ConstPtr_scope_def MutablePtr_scope_def)

theorem C4_destructor_releases_own_mode_witness:
  "ConstPtr_dtor \<lparr>c_obj = Some 0, c_mutex = 0\<rparr>
     \<lparr>objs = [0 \<mapsto> (1::int)], mutexes = [0 \<mapsto> \<lparr>shared = 2, exclusive = False\<rparr>]\<rparr> =
     Inr \<lparr>objs = [0 \<mapsto> 1], mutexes = [0 \<mapsto> \<lparr>shared = 1, exclusive = False\<rparr>]\<rparr> \<and>
   MutablePtr_dtor \<lparr>m_obj = Some 0, m_mutex = 0\<rparr>
     \<lparr>objs = [0 \<mapsto> (1::int)], mutexes = [0 \<mapsto> \<lparr>shared = 0, exclusive = True\<rparr>]\<rparr> =
     Inr \<lparr>objs = [0 \<mapsto> 1], mutexes = [0 \<mapsto> \<lparr>shared = 0, exclusive = False\<rparr>]\<rparr> \<and>
   ConstPtr_scope 0 (\<lambda>val k. Inr (Throws, k)) (Protected_ctor 0 (1::int) empty_heap) =
     Inr (Throws, Protected_ctor 0 1 empty_heap) \<and>
   MutablePtr_scope 0 (\<lambda>val k. Inr (Returns, k)) (Protected_ctor 0 (1::int) empty_heap) =
     Inr (Returns, Protected_ctor 0 1 empty_heap)"
proof -
  let ?k = "Protected_ctor 0 (1::int) empty_heap"
  let ?kr = "\<lparr>objs = [0 \<mapsto> (1::int)], mutexes = [0 \<mapsto> \<lparr>shared = 1, exclusive = False\<rparr>]\<rparr>"
  let ?kw = "\<lparr>objs = [0 \<mapsto> (1::int)], mutexes = [0 \<mapsto> \<lparr>shared = 0, exclusive = True\<rparr>]\<rparr>"
  have r: "Protected_getConstPtr 0 ?k = Inr (\<lparr>c_obj = Some 0, c_mutex = 0\<rparr>, ?kr)"
    by (simp add: Protected_getConstPtr_def ConstPtr_ctor_def lock_shared_def
        Protected_ctor_def empty_heap_def)
  have w: "Protected_getMutablePtr 0 ?k = Inr (\<lparr>m_obj = Some 0, m_mutex = 0\<rparr>, ?kw)"
    by (simp add: Protected_getMutablePtr_def MutablePtr_ctor_def lock_def
        Protected_ctor_def empty_heap_def)
  have k: "?k = \<lparr>objs = [0 \<mapsto> (1::int)], mutexes = [0 \<mapsto> \<lparr>shared = 0, exclusive = False\<rparr>]\<rparr>"
    by (simp add: Protected_ctor_def empty_heap_def)
  from C4_destructor_releases_own_mode
    [of "\<lparr>objs = [0 \<mapsto> (1::int)], mutexes = [0 \<mapsto> \<lparr>shared = 2, exclusive = False\<rparr>]\<rparr>"
      "\<lparr>c_obj = Some 0, c_mutex = 0\<rparr>" "\<lparr>shared = 2, exclusive = False\<rparr>"
      ?kw "\<lparr>m_obj = Some 0, m_mutex = 0\<rparr>" "\<lparr>shared = 0, exclusive = True\<rparr>"
      0 ?k "\<lparr>c_obj = Some 0, c_mutex = 0\<rparr>" ?kr "\<lambda>val k. Inr (Throws, k)" Throws ?kr
      "\<lparr>shared = 1, exclusive = False\<rparr>"
      0 ?k "\<lparr>m_obj = Some 0, m_mutex = 0\<rparr>" ?kw "\<lambda>val k. Inr (Returns, k)" Returns ?kw
      "\<lparr>shared = 0, exclusive = True\<rparr>"]
    r w
  show ?thesis
    by (simp add: k)
qed

subsection \<open>Value semantics of get\<close>

lemma mutate_frame:
  assumes "mutate p m h = Inr h'" and "c \<noteq> p"
  shows "objs h' c = objs h c"
proof (cases m)
  case (BySet v)
  with assms show ?thesis
    by (auto simp: Protected_set_def lock_def unlock_def store_def
        split: option.splits if_splits sum.splits)
next
  case (BySetRvalue src)
  with assms show ?thesis
    by (auto simp: Protected_set_rvalue_def lock_def unlock_def store_def load_def
        split: option.splits if_splits sum.splits)
next
  case (ByWriteGuard f)
  with assms show ?thesis
    by (auto simp: Protected_getMutablePtr_def MutablePtr_ctor_def MutablePtr_write_def
        MutablePtr_dtor_def lock_def unlock_def store_def
        split: option.splits if_splits sum.splits)
qed

lemma mutate_all_frame:
  "mutate_all p ms h = Inr h' \<Longrightarrow> c \<noteq> p \<Longrightarrow> objs h' c = objs h c"
proof (induction ms arbitrary: h)
  case Nil
  then show ?case by simp
next
  case (Cons m ms)
  from Cons.prems(1) obtain h1 where
    step: "mutate p m h = Inr h1" and rest: "mutate_all p ms h1 = Inr h'"
    by (auto split: sum.splits)
  from Cons.IH [OF rest Cons.prems(2)] mutate_frame [OF step Cons.prems(2)]
  show ?case by simp
qed

lemma Protected_get_value:
  "Protected_get p h = Inr (v, h') \<Longrightarrow> objs h p = Some v \<and> h' = h"
  by (auto simp: Protected_get_def lock_shared_def unlock_shared_def load_def
      Mutex_release_shared heap_restore
      split: option.splits if_splits sum.splits)

text \<open>
  C5. The caller keeps the result of \<^verbatim>\<open>get()\<close> in an object \<open>c\<close> of its own. That object
  holds the payload as it was at the call, and it still holds it after any sequence of
  \<^verbatim>\<open>set\<close> calls and of writes through write guards on the container.
\<close>

theorem C5_get_copy_independent:
  assumes "c \<noteq> p" and "Protected_get_into c p h = Inr h1"
    and "mutate_all p ms h1 = Inr h2"
  shows "objs h1 c = objs h p \<and> objs h2 c = objs h p \<and> objs h p \<noteq> None"
proof -
  from assms(2) obtain v h' where g: "Protected_get p h = Inr (v, h')"
    and h1: "h1 = h'\<lparr>objs := (objs h')(c \<mapsto> v)\<rparr>"
    by (auto simp: Protected_get_into_def split: sum.splits)
  from Protected_get_value [OF g] h1 have "objs h1 c = objs h p" and "objs h p \<noteq> None"
    by simp_all
  moreover from mutate_all_frame [OF assms(3,1)] have "objs h2 c = objs h1 c" .
  ultimately show ?thesis by simp
qed

theorem C5_get_copy_independent_witness:
  "\<exists>h1 h2. Protected_get_into 3 0 (Protected_ctor 0 (1::int) empty_heap) = Inr h1 \<and>
     mutate_all 0 [BySet 5, ByWriteGuard (\<lambda>n. n + 1), BySetRvalue 3, BySet 8] h1 = Inr h2 \<and>
     objs h1 3 = Some 1 \<and> objs h2 3 = Some 1 \<and> objs h2 0 = Some 8"
proof -
  let ?h = "Protected_ctor 0 (1::int) empty_heap"
  let ?ms = "[BySet 5, ByWriteGuard (\<lambda>n. n + 1), BySetRvalue 3, BySet (8::int)]"
  have "\<exists>h1. Protected_get_into 3 0 ?h = Inr h1 \<and>
          (\<exists>h2. mutate_all 0 ?ms h1 = Inr h2 \<and> objs h2 0 = Some 8)"
    by (simp add: Protected_get_into_def Protected_get_def Protected_set_def
        Protected_set_rvalue_def Protected_getMutablePtr_def MutablePtr_ctor_def
        MutablePtr_write_def MutablePtr_dtor_def Protected_ctor_def
        empty_heap_def lock_def unlock_def lock_shared_def unlock_shared_def load_def
        store_def)
  then obtain h1 h2 where a: "Protected_get_into 3 0 ?h = Inr h1"
    and b: "mutate_all 0 ?ms h1 = Inr h2" and c: "objs h2 0 = Some 8"
    by blast
  have "objs ?h 0 = Some 1"
    by (simp add: Protected_ctor_def empty_heap_def)
  with C5_get_copy_independent [OF _ a b] a b c show ?thesis
    by auto
qed

subsection \<open>Boolean evaluation of a guard\<close>



lemma Protected_getConstPtr_result:
  "Protected_getConstPtr p h = Inr (g, h') \<Longrightarrow>
   g = \<lparr>c_obj = Some p, c_mutex = p\<rparr> \<and> objs h' = objs h \<and>
   (\<exists>mu. mutexes h p = Some mu \<and> \<not> exclusive mu \<and>
         mutexes h' = (mutexes h)(p \<mapsto> mu\<lparr>shared := Suc (shared mu)\<rparr>))"
  by (auto simp: Protected_getConstPtr_def ConstPtr_ctor_def lock_shared_def
      split: option.splits if_splits sum.splits)

lemma Protected_getMutablePtr_result:
  "Protected_getMutablePtr p h = Inr (g, h') \<Longrightarrow>
   g = \<lparr>m_obj = Some p, m_mutex = p\<rparr> \<and> objs h' = objs h \<and>
   (\<exists>mu. mutexes h p = Some mu \<and> \<not> exclusive mu \<and> shared mu = 0 \<and>
         mutexes h' = (mutexes h)(p \<mapsto> mu\<lparr>exclusive := True\<rparr>))"
  by (auto simp: Protected_getMutablePtr_def MutablePtr_ctor_def lock_def
      split: option.splits if_splits sum.splits)










subsection \<open>Moving a guard\<close>

text \<open>
  C1. A read guard is taken from a container, a second guard is move-constructed from
  it, and both are destroyed. The guard that was moved from is still true. The destructor
  of the new guard releases the one shared acquisition; the destructor of the guard that
  was moved from then releases again, on a mutex that nothing holds. The same run with a
  write guard: the guard that was moved from is false, and its destructor releases the
  exclusive acquisition a second time all the same. Move assignment of a guard has no
  instantiation.
\<close>

theorem C1_moved_from_guard_releases_again:
  "\<exists>g h1 w k1.
     Protected_getConstPtr 0 (Protected_ctor 0 (1::int) empty_heap) = Inr (g, h1) \<and>
     (case ConstPtr_move_ctor g of
        (g2, g1) \<Rightarrow>
          ConstPtr_bool g1 \<and>
          (\<exists>h2. ConstPtr_dtor g2 h1 = Inr h2 \<and>
                mutexes h2 0 = Some \<lparr>shared = 0, exclusive = False\<rparr> \<and>
                ConstPtr_dtor g1 h2 = Inl Undefined) \<and>
          ConstPtr_move_assign g2 g1 h1 = Inl IllFormed) \<and>
     Protected_getMutablePtr 0 (Protected_ctor 0 (1::int) empty_heap) = Inr (w, k1) \<and>
     (case MutablePtr_move_ctor w of
        (w2, w1) \<Rightarrow>
          MutablePtr_bool w1 = False \<and>
          (\<exists>k2. MutablePtr_dtor w2 k1 = Inr k2 \<and>
                mutexes k2 0 = Some \<lparr>shared = 0, exclusive = False\<rparr> \<and>
                MutablePtr_dtor w1 k2 = Inl Undefined) \<and>
          MutablePtr_move_assign w2 w1 k1 = Inl IllFormed)"
  by (simp add: Protected_ctor_def empty_heap_def Protected_getConstPtr_def
      Protected_getMutablePtr_def ConstPtr_ctor_def MutablePtr_ctor_def
      ConstPtr_move_ctor_def MutablePtr_move_ctor_def ConstPtr_bool_def MutablePtr_bool_def
      ConstPtr_dtor_def MutablePtr_dtor_def ConstPtr_move_assign_def
      MutablePtr_move_assign_def Mutex_assign_def lock_def unlock_def lock_shared_def
      unlock_shared_def)

subsection \<open>Move assignment of the container\<close>

text \<open>
  C8. Two containers \<open>a\<close> and \<open>b\<close> hold 1 and 2, with no guard alive. The move assignment
  \<^verbatim>\<open>a = std::move(b)\<close> starts by assigning the mutex of \<open>b\<close> to the mutex of \<open>a\<close>, for
  which \<^verbatim>\<open>std::shared_mutex\<close> has no operator: the assignment has no instantiation, so no
  run of it makes \<^verbatim>\<open>a.get()\<close> return 2.
\<close>

theorem C8_move_assign_not_instantiable:
  "Protected_move_assign moved_from 0 1
     (Protected_ctor 0 (1::int) (Protected_ctor 1 2 empty_heap)) = Inl IllFormed"
  by (simp add: Protected_move_assign_def Mutex_assign_def)

subsection \<open>Read guards and write guards on one container\<close>

text \<open>
  As long as no guard is move-constructed, the lock agrees with the guards alive, and so a
  read guard and a write guard of one container are never alive together.
\<close>

lemma consistent_start: "consistent p (start p v)"
  by (simp add: consistent_def start_def Protected_ctor_def empty_heap_def)

lemma consistent_step:
  assumes "consistent p s" and "\<not> is_move a" and "guard_step p a s = Inr s'"
  shows "consistent p s'"
proof (cases a)
  case (AcquireRead r)
  with assms(3) obtain g h' where fresh: "readers s r = None"
    and got: "Protected_getConstPtr p (mem s) = Inr (g, h')"
    and s': "s' = s\<lparr>mem := h', readers := (readers s)(r \<mapsto> g)\<rparr>"
    by (auto split: if_splits sum.splits)
  from Protected_getConstPtr_result [OF got] obtain mu where
    g: "g = \<lparr>c_obj = Some p, c_mutex = p\<rparr>" and mu: "mutexes (mem s) p = Some mu"
    and free: "\<not> exclusive mu"
    and h': "mutexes h' = (mutexes (mem s))(p \<mapsto> mu\<lparr>shared := Suc (shared mu)\<rparr>)"
    by blast
  from fresh have "r \<notin> dom (readers s)" by (simp add: domIff)
  with assms(1) mu free show ?thesis
    unfolding consistent_def s' g
    by (auto simp: h' ran_def)
next
  case (MoveRead r' r)
  with assms(2) show ?thesis by simp
next
  case (ReleaseRead r)
  with assms(3) obtain g h' where live: "readers s r = Some g"
    and rel: "ConstPtr_dtor g (mem s) = Inr h'"
    and s': "s' = s\<lparr>mem := h', readers := (readers s)(r := None)\<rparr>"
    by (auto split: option.splits sum.splits)
  from live assms(1) have g: "g = \<lparr>c_obj = Some p, c_mutex = p\<rparr>"
    by (auto simp: consistent_def ran_def)
  from rel g obtain mu where mu: "mutexes (mem s) p = Some mu" and pos: "0 < shared mu"
    and h': "mutexes h' = (mutexes (mem s))(p \<mapsto> mu\<lparr>shared := shared mu - 1\<rparr>)"
    by (auto simp: ConstPtr_dtor_def unlock_shared_def split: option.splits if_splits)
  from live have "r \<in> dom (readers s)" by (simp add: domIff)
  with assms(1) mu pos show ?thesis
    unfolding consistent_def s'
    by (auto simp: h' ran_def split: if_splits)
next
  case (AcquireWrite w)
  with assms(3) obtain g h' where fresh: "writers s w = None"
    and got: "Protected_getMutablePtr p (mem s) = Inr (g, h')"
    and s': "s' = s\<lparr>mem := h', writers := (writers s)(w \<mapsto> g)\<rparr>"
    by (auto split: if_splits sum.splits)
  from Protected_getMutablePtr_result [OF got] obtain mu where
    g: "g = \<lparr>m_obj = Some p, m_mutex = p\<rparr>" and mu: "mutexes (mem s) p = Some mu"
    and free: "\<not> exclusive mu" "shared mu = 0"
    and h': "mutexes h' = (mutexes (mem s))(p \<mapsto> mu\<lparr>exclusive := True\<rparr>)"
    by blast
  with assms(1) show ?thesis
    unfolding consistent_def s' g
    by (auto simp: h' ran_def)
next
  case (MoveWrite w' w)
  with assms(2) show ?thesis by simp
next
  case (ReleaseWrite w)
  with assms(3) obtain g h' where live: "writers s w = Some g"
    and rel: "MutablePtr_dtor g (mem s) = Inr h'"
    and s': "s' = s\<lparr>mem := h', writers := (writers s)(w := None)\<rparr>"
    by (auto split: option.splits sum.splits)
  from live assms(1) have g: "g = \<lparr>m_obj = Some p, m_mutex = p\<rparr>"
    by (auto simp: consistent_def ran_def)
  from rel g obtain mu where mu: "mutexes (mem s) p = Some mu" and held: "exclusive mu"
    and h': "mutexes h' = (mutexes (mem s))(p \<mapsto> mu\<lparr>exclusive := False\<rparr>)"
    by (auto simp: MutablePtr_dtor_def unlock_def split: option.splits if_splits)
  from live have w: "w \<in> dom (writers s)" by (simp add: domIff)
  from assms(1) mu held have one: "card (dom (writers s)) = 1" and "finite (dom (writers s))"
    by (auto simp: consistent_def)
  then obtain w0 where "dom (writers s) = {w0}"
    by (auto simp: card_1_singleton_iff)
  with w have "dom (writers s) = {w}"
    by simp
  with assms(1) mu held show ?thesis
    unfolding consistent_def s'
    by (auto simp: h' ran_def split: if_splits)
qed


lemma consistent_run:
  "consistent p s \<Longrightarrow> list_all (\<lambda>a. \<not> is_move a) as \<Longrightarrow> guard_run p as s = Inr s' \<Longrightarrow>
   consistent p s'"
proof (induction as arbitrary: s)
  case Nil
  then show ?case by simp
next
  case (Cons a as)
  from Cons.prems(3) obtain s1 where
    step: "guard_step p a s = Inr s1" and rest: "guard_run p as s1 = Inr s'"
    by (auto split: sum.splits)
  from Cons.prems(2) have "\<not> is_move a" and "list_all (\<lambda>a. \<not> is_move a) as"
    by simp_all
  from consistent_step [OF Cons.prems(1) this(1) step] this(2) rest
  show ?case by (rule Cons.IH)
qed

lemma consistent_exclusion:
  assumes "consistent p s"
  shows "readers s = Map.empty \<or> writers s = Map.empty"
  using assms unfolding consistent_def
  by (elim conjE exE) (simp split: if_splits)

lemma move_free_exclusion:
  assumes "list_all (\<lambda>a. \<not> is_move a) as" and "guard_run p as (start p v) = Inr s"
  shows "readers s = Map.empty \<or> writers s = Map.empty"
  using consistent_exclusion [OF consistent_run [OF consistent_start assms]] .

text \<open>
  C3. With a move construction the agreement is lost. One thread takes a read guard
  (name 1) and move-constructs a second guard (name 2) from it; the first guard is
  destroyed, which releases the only shared acquisition; another thread then completes
  \<^verbatim>\<open>getMutablePtr()\<close>. The read guard 2 is alive, is true and reads the payload, and the
  write guard 3 is alive on the same container, with the lock held exclusively.
\<close>

theorem C3_write_guard_beside_live_read_guard:
  "\<exists>s r w.
     guard_run 0 [AcquireRead 1, MoveRead 2 1, ReleaseRead 1, AcquireWrite 3] (start 0 (1::int))
       = Inr s \<and>
     readers s 2 = Some r \<and> ConstPtr_bool r \<and> ConstPtr_deref r (mem s) = Inr 1 \<and>
     writers s 3 = Some w \<and> MutablePtr_bool w \<and> MutablePtr_deref w (mem s) = Inr 1 \<and>
     mutexes (mem s) 0 = Some \<lparr>shared = 0, exclusive = True\<rparr>"
  by (simp add: start_def Protected_ctor_def empty_heap_def Protected_getConstPtr_def
      Protected_getMutablePtr_def ConstPtr_ctor_def MutablePtr_ctor_def
      ConstPtr_move_ctor_def ConstPtr_dtor_def ConstPtr_bool_def MutablePtr_bool_def
      ConstPtr_deref_def MutablePtr_deref_def load_def
      lock_def lock_shared_def unlock_shared_def)


end
